theory Spec2Isabelle
  imports Complex_Main
begin

section \<open>FumoFinder: the identifier's dispatch core, embedded in HOL\<close>

text \<open>
  The development follows \<^verbatim>\<open>internal/model/response.go\<close> (the decoded reply of the
  recognition service and the polymorphic episode number) and
  \<^verbatim>\<open>internal/identifier/episode_identifier.go\<close> (the evaluation of candidates, the
  per-path worker, the failure handling and the best-effort requeue).

  Conventions of the embedding.
  \<^item> Go's \<^verbatim>\<open>float64\<close> is \<^typ>\<open>real\<close>: comparisons, \<open>+\<close>, \<open>-\<close> and \<open>*\<close> are exact, and
    there is no NaN, no infinity and no negative zero.
  \<^item> Go's \<^verbatim>\<open>int\<close> is \<^typ>\<open>int\<close>: the counters of the program are bounded by the number
    of frames, far below the 64-bit range.
  \<^item> A Go map is a partial function; reading a missing key gives the zero value.
  \<^item> Standard-library functions (\<^verbatim>\<open>strconv.ParseFloat\<close>, \<^verbatim>\<open>fmt.Sprintf\<close> of
    floats, \<^verbatim>\<open>filepath.Base\<close>, \<^verbatim>\<open>time.Parse\<close>, ...) are parameters, collected
    in the record \<open>stdlib\<close>.
  \<^item> Text written to standard output is a list of structured events: an event keeps the
    arguments of the \<^verbatim>\<open>Printf\<close> call, not the rendered characters.
  \<^item> The outcome of the file read and of the HTTP exchange of one recognition call is an
    input of the model (\<open>io_outcome\<close>).
\<close>

subsection \<open>The decoded reply (\<^verbatim>\<open>internal/model/response.go\<close>)\<close>

record EpisodeNumber =
  Number :: real
  Raw :: string

record Title =
  Native :: string
  Romaji :: string
  English :: string

record AnilistInfo =
  ID :: int
  IDMal :: int
  Title :: Title
  Synonyms :: "string list"
  IsAdult :: bool

record TraceMoeResult =
  Anilist :: AnilistInfo
  Filename :: string
  Episode :: EpisodeNumber
  From :: real
  To :: real
  Similarity :: real
  Video :: string
  Image :: string

text \<open>
  The bytes handed to \<^verbatim>\<open>EpisodeNumber.UnmarshalJSON\<close> are one JSON value. The model
  keeps what the two \<^verbatim>\<open>json.Unmarshal\<close> attempts of the function look at: a number
  literal, a string literal (already unquoted), \<^verbatim>\<open>null\<close> (which \<^verbatim>\<open>json.Unmarshal\<close>
  accepts for every target and leaves the target untouched), or any other value, kept as
  its raw text.
\<close>

datatype json_value = JNumber real | JString string | JNull | JOther string

datatype unmarshal_error = FailedToUnmarshalEpisodeNumber string

record stdlib =
  ParseFloat :: "string \<Rightarrow> real option"
  Sprintf_f0 :: "real \<Rightarrow> string"
  Sprintf_range :: "real \<Rightarrow> real \<Rightarrow> string"
  Base :: "string \<Rightarrow> string"
  Dir :: "string \<Rightarrow> string"
  Split :: "string \<Rightarrow> string \<Rightarrow> string list"
  TrimSuffix :: "string \<Rightarrow> string \<Rightarrow> string"
  time_Parse :: "string \<Rightarrow> string \<Rightarrow> (int \<times> int \<times> int) option"

text \<open>
  \<^verbatim>\<open>json.Unmarshal(data, &num)\<close> into a \<^verbatim>\<open>float64\<close>: succeeds on a number (storing it)
  and on \<^verbatim>\<open>null\<close> (storing nothing, \<open>num\<close> keeps its zero value), fails otherwise.
\<close>

definition unmarshal_float64 :: "json_value \<Rightarrow> real option" where
  "unmarshal_float64 d = (case d of JNumber x \<Rightarrow> Some x | JNull \<Rightarrow> Some 0 | _ \<Rightarrow> None)"

text \<open>\<^verbatim>\<open>json.Unmarshal(data, &str)\<close> into a \<^verbatim>\<open>string\<close>.\<close>

definition unmarshal_string :: "json_value \<Rightarrow> string option" where
  "unmarshal_string d = (case d of JString s \<Rightarrow> Some s | JNull \<Rightarrow> Some [] | _ \<Rightarrow> None)"

definition raw_text :: "json_value \<Rightarrow> string" where
  "raw_text d = (case d of JOther s \<Rightarrow> s | _ \<Rightarrow> [])"

text \<open>
  \<^verbatim>\<open>func (e *EpisodeNumber) UnmarshalJSON(data []byte) error\<close>. The receiver is an
  argument: the non-numeric branch writes \<open>Raw\<close> only and leaves \<open>Number\<close> as it was.
\<close>

definition UnmarshalJSON ::
  "stdlib \<Rightarrow> EpisodeNumber \<Rightarrow> json_value \<Rightarrow> EpisodeNumber \<times> unmarshal_error option" where
  "UnmarshalJSON L e d =
     (case unmarshal_float64 d of
        Some num \<Rightarrow> (e\<lparr>Number := num, Raw := Sprintf_f0 L num\<rparr>, None)
      | None \<Rightarrow>
          (case unmarshal_string d of
             Some str \<Rightarrow>
               (case ParseFloat L str of
                  Some parsedNum \<Rightarrow> (e\<lparr>Number := parsedNum, Raw := Sprintf_f0 L parsedNum\<rparr>, None)
                | None \<Rightarrow> (e\<lparr>Raw := str\<rparr>, None))
           | None \<Rightarrow>
               (e\<lparr>Raw := raw_text d\<rparr>, Some (FailedToUnmarshalEpisodeNumber (raw_text d)))))"

text \<open>\<^verbatim>\<open>func (e EpisodeNumber) String() string\<close>.\<close>

definition String :: "stdlib \<Rightarrow> EpisodeNumber \<Rightarrow> string" where
  "String L e = (if Number e \<noteq> 0 then Sprintf_f0 L (Number e) else Raw e)"

text \<open>The zero value of the struct, into which the JSON decoder decodes a fresh element.\<close>

definition zero_EpisodeNumber :: EpisodeNumber where
  "zero_EpisodeNumber = \<lparr>Number = 0, Raw = []\<rparr>"

definition decode_episode :: "stdlib \<Rightarrow> json_value \<Rightarrow> EpisodeNumber" where
  "decode_episode L d = fst (UnmarshalJSON L zero_EpisodeNumber d)"

text \<open>
  An episode value has a numeric interpretation when the first attempt succeeds on a number
  or the string parses with \<^verbatim>\<open>strconv.ParseFloat\<close>; it is a non-numeric string when it
  is a string that does not parse.
\<close>

fun numeric_interpretation :: "stdlib \<Rightarrow> json_value \<Rightarrow> real option" where
  "numeric_interpretation L (JNumber x) = Some x"
| "numeric_interpretation L (JString s) = ParseFloat L s"
| "numeric_interpretation L JNull = None"
| "numeric_interpretation L (JOther s) = None"

subsubsection \<open>A concrete standard library for unsigned decimal integers\<close>

text \<open>
  For evaluating the functions on concrete inputs: \<^verbatim>\<open>ParseFloat\<close> restricted to
  non-empty strings of decimal digits, \<^verbatim>\<open>Sprintf("%.0f", x)\<close> for \<open>x \<ge> 0\<close> (rounding
  to the nearest integer, ties to even), and path and time functions for frames that all
  lie in the directory \<^verbatim>\<open>video\<close> and carry the timestamp \<^verbatim>\<open>00-01-40\<close> (100 seconds).
  On these inputs the functions of Go agree with the definitions below.
\<close>

definition digit_val :: "char \<Rightarrow> nat option" where
  "digit_val c =
     (let n = (of_char c :: nat) in if 48 \<le> n \<and> n \<le> 57 then Some (n - 48) else None)"

fun digits_val :: "nat \<Rightarrow> string \<Rightarrow> nat option" where
  "digits_val acc [] = Some acc"
| "digits_val acc (c # cs) =
     (case digit_val c of None \<Rightarrow> None | Some d \<Rightarrow> digits_val (10 * acc + d) cs)"

definition ParseFloat_digits :: "string \<Rightarrow> real option" where
  "ParseFloat_digits s =
     (if s = [] then None
      else case digits_val 0 s of None \<Rightarrow> None | Some n \<Rightarrow> Some (real n))"

definition digit_char :: "nat \<Rightarrow> char" where
  "digit_char d = (if d < 10 then ''0123456789'' ! d else CHR ''?'')"

fun show_nat :: "nat \<Rightarrow> string" where
  "show_nat n = (if n < 10 then [digit_char n] else show_nat (n div 10) @ [digit_char (n mod 10)])"

declare show_nat.simps [simp del]

definition round_half_even :: "real \<Rightarrow> int" where
  "round_half_even x =
     (let f = \<lfloor>x\<rfloor>; r = x - of_int f in
      if r < 1/2 then f else if r > 1/2 then f + 1 else if even f then f else f + 1)"

definition Sprintf_f0_nonneg :: "real \<Rightarrow> string" where
  "Sprintf_f0_nonneg x = show_nat (nat (round_half_even x))"

definition test_stdlib :: stdlib where
  "test_stdlib =
     \<lparr>ParseFloat = ParseFloat_digits,
      Sprintf_f0 = Sprintf_f0_nonneg,
      Sprintf_range = (\<lambda>a b. Sprintf_f0_nonneg a @ '' to '' @ Sprintf_f0_nonneg b),
      Base = (\<lambda>p. p),
      Dir = (\<lambda>p. ''video''),
      Split = (\<lambda>s sep. [s, ''00-01-40.jpg'']),
      TrimSuffix = (\<lambda>s suf. ''00-01-40''),
      time_Parse = (\<lambda>layout s. Some (0, 1, 40))\<rparr>"

subsection \<open>The timestamp test of the Match Evaluator\<close>

text \<open>
  The condition of the \<^verbatim>\<open>if\<close> in the candidate loop of \<^verbatim>\<open>IdentifyEpisode\<close>:
  within the range, or within the threshold before \<^verbatim>\<open>from\<close>, or within the threshold
  after \<^verbatim>\<open>to\<close>.
\<close>

definition withinRangeOrThreshold :: "real \<Rightarrow> real \<Rightarrow> real \<Rightarrow> real \<Rightarrow> bool" where
  "withinRangeOrThreshold timestampSec mFrom mTo threshold \<longleftrightarrow>
     (timestampSec \<ge> mFrom \<and> timestampSec \<le> mTo) \<or>
     (timestampSec \<ge> mFrom - threshold \<and> timestampSec < mFrom) \<or>
     (timestampSec > mTo \<and> timestampSec \<le> mTo + threshold)"

subsection \<open>State of the identifier (\<^verbatim>\<open>internal/identifier/episode_identifier.go\<close>)\<close>

record MatchInfo =
  mi_AnilistID :: int
  mi_MalID :: int
  mi_TitleNative :: string
  mi_TitleRomaji :: string
  mi_TitleEnglish :: string
  mi_Synonyms :: "string list"
  mi_IsAdult :: bool
  mi_Episode :: EpisodeNumber
  mi_Similarity :: real
  mi_Timestamp :: real
  mi_From :: real
  mi_To :: real
  mi_VideoName :: string
  mi_FrameName :: string
  mi_MatchedRange :: string
  mi_ProxyUsed :: string
  mi_VideoURL :: string
  mi_ImageURL :: string

text \<open>The errors \<^verbatim>\<open>IdentifyEpisode\<close> returns, one per \<^verbatim>\<open>fmt.Errorf\<close> of the function.\<close>

datatype identify_error =
    ProxyMarkedBroken string
  | FailedToOpenFrame
  | FailedToReadFrame
  | FailedToCreateRequest
  | FailedToSendFrame
  | FailedToParseResponse

text \<open>
  What the file system and the network do during one call of \<^verbatim>\<open>IdentifyEpisode\<close>:
  one of the five failures, in the order the function meets them, or the decoded list
  \<^verbatim>\<open>result.Result\<close>.
\<close>

datatype io_outcome =
    OpenFails
  | ReadFails
  | NewRequestFails
  | DoFails
  | DecodeFails
  | Decoded "TraceMoeResult list"

text \<open>The two rejection reasons, with the arguments of their \<^verbatim>\<open>Sprintf\<close>.\<close>

datatype reason =
    AniListIDMismatch int int string string
  | TimestampMismatch real real real real string string

text \<open>
  The text \<^verbatim>\<open>info\<close> returned on acceptance, with the arguments of its \<^verbatim>\<open>Sprintf\<close>:
  title, episode, similarity as printed, timestamp, from, to, video, frame, proxy. The
  empty string is \<open>None\<close>.
\<close>

datatype match_text = MatchFound string string real real real real string string string

datatype event =
    ProxyConfigured string
  | NoProxiesProvided
  | WorkerTerminatesBroken string
  | ErrorIdentifying string identify_error
  | RetryFailed nat "identify_error option"
  | DroppingFrame string
  | NoSimilarEpisode string
  | Println_info "match_text option"
  | ProxyRemoved string
  | ProxyFailed string int
  | FailedToIdentify string string reason nat
  | NoMatchFound string string

text \<open>
  \<^verbatim>\<open>EpisodeIdentifier\<close>. An \<^verbatim>\<open>*http.Client\<close> is a handle of type \<^typ>\<open>nat\<close>; the map
  \<^verbatim>\<open>httpClients\<close> is an association list with distinct handles, whose order is the
  order in which a \<^verbatim>\<open>range\<close> visits it. The channel \<^verbatim>\<open>done\<close> carries no value: it is
  the flag \<open>done_closed\<close>, true once \<^verbatim>\<open>close(ei.done)\<close> has run. The mutexes, the wait
  group and \<^verbatim>\<open>completionChan\<close> only order the accesses of concurrent workers; the model
  runs one worker iteration at a time and leaves them out. \<open>stdout\<close> collects what is
  printed.
\<close>

record EpisodeIdentifier =
  apiEndpoint :: string
  aniListID :: int
  Matches :: "MatchInfo list"
  httpClients :: "(nat \<times> string) list"
  frameCounts :: "string \<rightharpoonup> int"
  failCounts :: "string \<rightharpoonup> int"
  brokenProxies :: "string \<rightharpoonup> bool"
  done_closed :: bool
  channelClosed :: bool
  stdout :: "event list"

text \<open>
  The buffered channel \<^verbatim>\<open>frames\<close>: its buffer (oldest first), its capacity, and whether
  it has been closed.
\<close>

record chan =
  buf :: "string list"
  cap :: nat
  closed :: bool

datatype panic = SendOnClosedChannel | CloseOfClosedChannel

definition lookup0 :: "('k \<rightharpoonup> int) \<Rightarrow> 'k \<Rightarrow> int" where
  "lookup0 m k = (case m k of None \<Rightarrow> 0 | Some v \<Rightarrow> v)"

definition lookupF :: "('k \<rightharpoonup> bool) \<Rightarrow> 'k \<Rightarrow> bool" where
  "lookupF m k = (case m k of None \<Rightarrow> False | Some v \<Rightarrow> v)"

text \<open>\<^verbatim>\<open>m[k]++\<close> on a Go map.\<close>

definition incr :: "('k \<rightharpoonup> int) \<Rightarrow> 'k \<Rightarrow> ('k \<rightharpoonup> int)" where
  "incr m k = m(k \<mapsto> lookup0 m k + 1)"

definition say :: "EpisodeIdentifier \<Rightarrow> event \<Rightarrow> EpisodeIdentifier" where
  "say ei e = ei\<lparr>stdout := stdout ei @ [e]\<rparr>"

definition Direct :: string where
  "Direct = ''No Proxy (Direct Connection)''"

text \<open>
  \<^verbatim>\<open>NewEpisodeIdentifier\<close>; \<open>proxies\<close> is the list of \<^verbatim>\<open>p.URL.String()\<close> of the
  proxy details handed in.
\<close>

definition NewEpisodeIdentifier :: "string \<Rightarrow> int \<Rightarrow> string list \<Rightarrow> EpisodeIdentifier" where
  "NewEpisodeIdentifier endpoint aid proxies =
     (let urls = (if length proxies > 0 then proxies else [Direct]) in
      \<lparr>apiEndpoint = endpoint,
       aniListID = aid,
       Matches = [],
       httpClients = zip [0..<length urls] urls,
       frameCounts = map_of (map (\<lambda>u. (u, 0)) urls),
       failCounts = map_of (map (\<lambda>u. (u, 0)) urls),
       brokenProxies = map_of (map (\<lambda>u. (u, False)) urls),
       done_closed = False,
       channelClosed = False,
       stdout = (if length proxies > 0 then map ProxyConfigured proxies else [NoProxiesProvided])\<rparr>)"

text \<open>The channel \<^verbatim>\<open>IdentifyEpisodes\<close> makes and fills before it starts the workers.\<close>

definition load_frames :: "string list \<Rightarrow> chan" where
  "load_frames fs = \<lparr>buf = fs, cap = length fs, closed = False\<rparr>"

subsection \<open>The best-effort requeue\<close>

text \<open>
  A \<^verbatim>\<open>select\<close> with a \<^verbatim>\<open>default\<close> takes the default when no case can proceed, and
  otherwise one of the cases that can proceed, chosen by the runtime. \<open>select_pick\<close> is
  the runtime's choice for the moment both the send and \<^verbatim>\<open><-ei.done\<close> can proceed. A
  send can proceed when the buffer has room; on a closed channel it proceeds by panicking.
  (With a full buffer no receiver waits, so room in the buffer is the only way to proceed
  for a channel of capacity above 0; \<^verbatim>\<open>IdentifyEpisodes\<close> makes a channel of capacity 0
  only for an empty list of frames, and then no worker ever has a frame to send.)
\<close>

datatype select_pick = PickSend | PickDone

definition SafeSend :: "select_pick \<Rightarrow> EpisodeIdentifier \<Rightarrow> chan \<Rightarrow> string \<Rightarrow> panic + chan" where
  "SafeSend pick ei frames frame =
     (if \<not> channelClosed ei then
        (let sendReady = (closed frames \<or> length (buf frames) < cap frames);
             doneReady = done_closed ei
         in if sendReady \<and> (\<not> doneReady \<or> pick = PickSend) then
              (if closed frames then Inl SendOnClosedChannel
               else Inr (frames\<lparr>buf := buf frames @ [frame]\<rparr>))
            else Inr frames)
      else Inr frames)"

text \<open>
  \<^verbatim>\<open>CloseFramesChannel\<close>, statement by statement: \<^verbatim>\<open>close(ei.done)\<close>, then
  \<^verbatim>\<open>ei.channelClosed.Store(true)\<close>, then, holding \<^verbatim>\<open>sendMutex\<close>,
  \<^verbatim>\<open>close(frames)\<close>. Closing a closed channel panics. \<^verbatim>\<open>SafeSend\<close> takes the same
  mutex, so it runs before or after the third statement, and it can run between the first
  two.
\<close>

definition close_done :: "EpisodeIdentifier \<Rightarrow> panic + EpisodeIdentifier" where
  "close_done ei =
     (if done_closed ei then Inl CloseOfClosedChannel else Inr (ei\<lparr>done_closed := True\<rparr>))"

definition store_channelClosed :: "EpisodeIdentifier \<Rightarrow> EpisodeIdentifier" where
  "store_channelClosed ei = ei\<lparr>channelClosed := True\<rparr>"

definition close_frames :: "chan \<Rightarrow> panic + chan" where
  "close_frames frames =
     (if closed frames then Inl CloseOfClosedChannel else Inr (frames\<lparr>closed := True\<rparr>))"

definition CloseFramesChannel ::
  "EpisodeIdentifier \<Rightarrow> chan \<Rightarrow> panic + (EpisodeIdentifier \<times> chan)" where
  "CloseFramesChannel ei frames =
     (case close_done ei of
        Inl p \<Rightarrow> Inl p
      | Inr ei1 \<Rightarrow>
          (case close_frames frames of
             Inl p \<Rightarrow> Inl p
           | Inr frames' \<Rightarrow> Inr (store_channelClosed ei1, frames')))"

subsection \<open>Failure handling\<close>

definition getClientByProxyURL :: "EpisodeIdentifier \<Rightarrow> string \<Rightarrow> nat option" where
  "getClientByProxyURL ei proxyURL =
     map_option fst (find (\<lambda>(client, url). url = proxyURL) (httpClients ei))"

text \<open>\<^verbatim>\<open>delete(m, key)\<close>; the key \<^verbatim>\<open>nil\<close> (\<open>None\<close>) is in no map.\<close>

definition delete_client :: "nat option \<Rightarrow> (nat \<times> string) list \<Rightarrow> (nat \<times> string) list" where
  "delete_client key m =
     (case key of None \<Rightarrow> m | Some c \<Rightarrow> filter (\<lambda>(client, url). client \<noteq> c) m)"

definition handleProxyFailure ::
  "select_pick \<Rightarrow> EpisodeIdentifier \<Rightarrow> string \<Rightarrow> chan \<Rightarrow> string \<Rightarrow>
   panic + (EpisodeIdentifier \<times> chan)" where
  "handleProxyFailure pick ei proxyURL frames frame =
     (let ei1 = ei\<lparr>failCounts := incr (failCounts ei) proxyURL\<rparr> in
      if lookup0 (failCounts ei1) proxyURL \<ge> 3 then
        (let ei2 = ei1\<lparr>brokenProxies := (brokenProxies ei1)(proxyURL \<mapsto> True)\<rparr>;
             ei3 = ei2\<lparr>httpClients :=
                         delete_client (getClientByProxyURL ei2 proxyURL) (httpClients ei2)\<rparr>;
             ei4 = say ei3 (ProxyRemoved proxyURL)
         in case SafeSend pick ei4 frames frame of
              Inl p \<Rightarrow> Inl p
            | Inr frames' \<Rightarrow> Inr (ei4, frames'))
      else Inr (say ei1 (ProxyFailed proxyURL (lookup0 (failCounts ei1) proxyURL)), frames))"

subsection \<open>Identifying one frame\<close>

text \<open>\<^verbatim>\<open>extractTimestampInSeconds\<close>; \<open>time_Parse\<close> gives hour, minute and second.\<close>

definition extractTimestampInSeconds :: "stdlib \<Rightarrow> string \<Rightarrow> real" where
  "extractTimestampInSeconds L imagePath =
     (let filename = Base L imagePath;
          parts = Split L filename ''_timestamp_''
      in if length parts < 2 then 0
         else (let timestamp = TrimSuffix L (parts ! 1) ''.jpg''
               in case time_Parse L ''15-04-05'' timestamp of
                    None \<Rightarrow> 0
                  | Some (h, m, s) \<Rightarrow> real_of_int (h * 3600 + m * 60 + s)))"

text \<open>
  The loop over \<^verbatim>\<open>result.Result\<close>, with its two local variables \<^verbatim>\<open>reasons\<close> and
  \<^verbatim>\<open>foundPotentialMatch\<close>. It stops at the first candidate that passes the AniList
  check and the timestamp test and returns it, together with the locals as they are then.
\<close>

fun scanResults ::
  "int \<Rightarrow> real \<Rightarrow> real \<Rightarrow> string \<Rightarrow> string \<Rightarrow> TraceMoeResult list \<Rightarrow> reason list \<Rightarrow> bool \<Rightarrow>
   TraceMoeResult option \<times> reason list \<times> bool" where
  "scanResults aid timestampSec threshold video fname [] reasons found = (None, reasons, found)"
| "scanResults aid timestampSec threshold video fname (m # ms) reasons found =
     (if aid \<noteq> 0 \<and> aid \<noteq> ID (Anilist m) then
        scanResults aid timestampSec threshold video fname ms
          (reasons @ [AniListIDMismatch aid (ID (Anilist m)) video fname]) found
      else if withinRangeOrThreshold timestampSec (From m) (To m) threshold then
        (Some m, reasons, found)
      else
        scanResults aid timestampSec threshold video fname ms
          (reasons @ [TimestampMismatch timestampSec (From m) (To m) threshold video fname]) True)"

text \<open>The \<^verbatim>\<open>MatchInfo\<close> literal built on acceptance.\<close>

definition makeMatchInfo ::
  "stdlib \<Rightarrow> TraceMoeResult \<Rightarrow> real \<Rightarrow> string \<Rightarrow> string \<Rightarrow> string \<Rightarrow> MatchInfo" where
  "makeMatchInfo L m timestampSec video fname proxyURL =
     \<lparr>mi_AnilistID = ID (Anilist m),
      mi_MalID = IDMal (Anilist m),
      mi_TitleNative = Native (Title (Anilist m)),
      mi_TitleRomaji = Romaji (Title (Anilist m)),
      mi_TitleEnglish = English (Title (Anilist m)),
      mi_Synonyms = Synonyms (Anilist m),
      mi_IsAdult = IsAdult (Anilist m),
      mi_Episode = Episode m,
      mi_Similarity = Similarity m * 100,
      mi_Timestamp = timestampSec,
      mi_From = From m,
      mi_To = To m,
      mi_VideoName = video,
      mi_FrameName = fname,
      mi_MatchedRange = Sprintf_range L (From m) (To m),
      mi_ProxyUsed = proxyURL,
      mi_VideoURL = Video m,
      mi_ImageURL = Image m\<rparr>"

text \<open>The title shown: English, else Romaji, else Native.\<close>

definition displayTitle :: "TraceMoeResult \<Rightarrow> string" where
  "displayTitle m =
     (if English (Title (Anilist m)) = [] then
        (if Romaji (Title (Anilist m)) = [] then Native (Title (Anilist m))
         else Romaji (Title (Anilist m)))
      else English (Title (Anilist m)))"

definition makeInfo ::
  "stdlib \<Rightarrow> TraceMoeResult \<Rightarrow> real \<Rightarrow> string \<Rightarrow> string \<Rightarrow> string \<Rightarrow> match_text" where
  "makeInfo L m timestampSec video fname proxyURL =
     MatchFound (displayTitle m) (String L (Episode m)) (Similarity m * 100)
       timestampSec (From m) (To m) video fname proxyURL"

text \<open>What is printed when the loop ends without an acceptance.\<close>

definition noMatchEvent :: "string \<Rightarrow> string \<Rightarrow> reason list \<Rightarrow> bool \<Rightarrow> event" where
  "noMatchEvent video fname reasons found =
     (case reasons of
        [] \<Rightarrow> NoMatchFound video fname
      | r # rs \<Rightarrow>
          if found then FailedToIdentify video fname r (length reasons)
          else NoMatchFound video fname)"

type_synonym identify_result = "match_text option \<times> real \<times> identify_error option"

definition IdentifyEpisode ::
  "stdlib \<Rightarrow> io_outcome \<Rightarrow> EpisodeIdentifier \<Rightarrow> string \<Rightarrow> real \<Rightarrow> string \<Rightarrow>
   EpisodeIdentifier \<times> identify_result" where
  "IdentifyEpisode L io ei imagePath threshold proxyURL =
     (if lookupF (brokenProxies ei) proxyURL then (ei, (None, 0, Some (ProxyMarkedBroken proxyURL)))
      else case io of
        OpenFails \<Rightarrow> (ei, (None, 0, Some FailedToOpenFrame))
      | ReadFails \<Rightarrow> (ei, (None, 0, Some FailedToReadFrame))
      | NewRequestFails \<Rightarrow> (ei, (None, 0, Some FailedToCreateRequest))
      | DoFails \<Rightarrow> (ei, (None, 0, Some FailedToSendFrame))
      | DecodeFails \<Rightarrow> (ei, (None, 0, Some FailedToParseResponse))
      | Decoded result \<Rightarrow>
          (let timestampSec = extractTimestampInSeconds L imagePath;
               video = Base L (Dir L imagePath);
               fname = Base L imagePath
           in case scanResults (aniListID ei) timestampSec threshold video fname result [] False of
                (Some m, reasons, found) \<Rightarrow>
                  (ei\<lparr>Matches := Matches ei @ [makeMatchInfo L m timestampSec video fname proxyURL]\<rparr>,
                   (Some (makeInfo L m timestampSec video fname proxyURL), Similarity m, None))
              | (None, reasons, found) \<Rightarrow>
                  (say ei (noMatchEvent video fname reasons found), (None, 0, None))))"

subsection \<open>The worker\<close>

text \<open>
  The retry loop of the direct connection, \<^verbatim>\<open>for retry := 1; retry <= 3; retry++\<close>.
  \<open>rio retry\<close> is what file system and network do during the call of that retry. The loop
  assigns \<^verbatim>\<open>info\<close>, \<^verbatim>\<open>similarity\<close> and \<^verbatim>\<open>err\<close> of the enclosing scope, which are
  carried as the last argument.
\<close>

function retryLoop ::
  "stdlib \<Rightarrow> (nat \<Rightarrow> io_outcome) \<Rightarrow> string \<Rightarrow> real \<Rightarrow> string \<Rightarrow> nat \<Rightarrow>
   EpisodeIdentifier \<times> identify_result \<Rightarrow> EpisodeIdentifier \<times> identify_result" where
  "retryLoop L rio proxyURL threshold frame retry (ei, res) =
     (if retry \<le> 3 then
        (case IdentifyEpisode L (rio retry) ei frame threshold proxyURL of
           (ei', (info, similarity, err)) \<Rightarrow>
             if err = None \<and> similarity > 0 then
               (say ei' (Println_info info), (info, similarity, err))
             else
               retryLoop L rio proxyURL threshold frame (retry + 1)
                 (say ei' (RetryFailed retry err), (info, similarity, err)))
      else (ei, res))"
  by pat_completeness auto
termination
  by (relation "measure (\<lambda>(L, rio, proxyURL, threshold, frame, retry, s). 4 - retry)") auto

declare retryLoop.simps [simp del]

text \<open>
  The end of the loop body, reached with \<^verbatim>\<open>err == nil\<close>: the test for similarity 0, the
  printing of \<^verbatim>\<open>info\<close>, and the increment of the per-path counter.
\<close>

datatype loop_ctl = Continue | Return

definition afterIdentify ::
  "EpisodeIdentifier \<Rightarrow> string \<Rightarrow> string \<Rightarrow> match_text option \<Rightarrow> real \<Rightarrow> EpisodeIdentifier" where
  "afterIdentify ei proxyURL frame info similarity =
     (if similarity = 0 then say ei (NoSimilarEpisode frame)
      else (let ei' = (if similarity > 0 then say ei (Println_info info) else ei)
            in ei'\<lparr>frameCounts := incr (frameCounts ei') proxyURL\<rparr>))"

text \<open>
  What one iteration of the worker's loop is given: which case of the \<^verbatim>\<open>select\<close> the
  runtime takes, the outcomes of the recognition calls the iteration may make (the first
  call and the retries), and the runtime's choice inside \<^verbatim>\<open>SafeSend\<close>.
\<close>

datatype select_case = RecvFrame | TickerFires | DoneSignal

record iter_in =
  which :: select_case
  first_io :: io_outcome
  retry_io :: "nat \<Rightarrow> io_outcome"
  pick :: select_pick

text \<open>
  The body of \<^verbatim>\<open>case frame, ok := <-frames\<close> for a frame that has been received;
  \<open>frames\<close> is the channel after the receive.
\<close>

definition processFrame ::
  "stdlib \<Rightarrow> iter_in \<Rightarrow> string \<Rightarrow> real \<Rightarrow> EpisodeIdentifier \<Rightarrow> chan \<Rightarrow> string \<Rightarrow>
   panic + (loop_ctl \<times> EpisodeIdentifier \<times> chan)" where
  "processFrame L x proxyURL threshold ei frames frame =
     (if lookupF (brokenProxies ei) proxyURL then
        Inr (Return, say ei (WorkerTerminatesBroken proxyURL), frames)
      else
        (case IdentifyEpisode L (first_io x) ei frame threshold proxyURL of
           (ei1, (info, similarity, err)) \<Rightarrow>
             (case err of
                Some e \<Rightarrow>
                  if proxyURL \<noteq> Direct then
                    (case handleProxyFailure (pick x) ei1 proxyURL frames frame of
                       Inl p \<Rightarrow> Inl p
                     | Inr (ei2, frames2) \<Rightarrow>
                         Inr (Continue, say ei2 (ErrorIdentifying proxyURL e), frames2))
                  else
                    (case retryLoop L (retry_io x) proxyURL threshold frame 1
                            (ei1, (info, similarity, err)) of
                       (ei2, (info2, similarity2, err2)) \<Rightarrow>
                         if err2 \<noteq> None \<or> similarity2 = 0 then
                           Inr (Continue, say ei2 (DroppingFrame frame), frames)
                         else
                           Inr (Continue, afterIdentify ei2 proxyURL frame info2 similarity2,
                                frames))
              | None \<Rightarrow>
                  Inr (Continue, afterIdentify ei1 proxyURL frame info similarity, frames))))"

text \<open>
  One iteration of \<^verbatim>\<open>for { select { ... } }\<close> in \<^verbatim>\<open>processFrames\<close>. The result is
  \<open>None\<close> when the case the input names cannot proceed in this state (an empty open
  channel, a \<^verbatim>\<open>done\<close> that is not closed): the runtime would not take it.
\<close>

definition processFrames_iter ::
  "stdlib \<Rightarrow> iter_in \<Rightarrow> string \<Rightarrow> real \<Rightarrow> EpisodeIdentifier \<Rightarrow> chan \<Rightarrow>
   (panic + (loop_ctl \<times> EpisodeIdentifier \<times> chan)) option" where
  "processFrames_iter L x proxyURL threshold ei frames =
     (case which x of
        RecvFrame \<Rightarrow>
          (case buf frames of
             frame # rest \<Rightarrow>
               Some (processFrame L x proxyURL threshold ei (frames\<lparr>buf := rest\<rparr>) frame)
           | [] \<Rightarrow> if closed frames then Some (Inr (Return, ei, frames)) else None)
      | TickerFires \<Rightarrow>
          Some (Inr (if length (buf frames) = 0 then Return else Continue, ei, frames))
      | DoneSignal \<Rightarrow>
          if done_closed ei then Some (Inr (Return, ei, frames)) else None)"

text \<open>
  A run of the dispatch: a sequence of worker iterations, each by the worker of some path.
  Iterations of different workers interleave in any order; the run does not track which
  workers have returned, so it covers every execution of the program at the granularity of
  whole iterations (and more).
\<close>

record worker_step =
  w_url :: string
  w_in :: iter_in

fun run ::
  "stdlib \<Rightarrow> real \<Rightarrow> worker_step list \<Rightarrow> EpisodeIdentifier \<times> chan \<Rightarrow>
   (EpisodeIdentifier \<times> chan) option" where
  "run L threshold [] s = Some s"
| "run L threshold (w # ws) s =
     (case processFrames_iter L (w_in w) (w_url w) threshold (fst s) (snd s) of
        Some (Inr (ctl, ei', frames')) \<Rightarrow> run L threshold ws (ei', frames')
      | _ \<Rightarrow> None)"

subsection \<open>Notions used in the statements\<close>

text \<open>A candidate passes the title filter when the filter is off or names its AniList id.\<close>

definition passesTitleFilter :: "int \<Rightarrow> TraceMoeResult \<Rightarrow> bool" where
  "passesTitleFilter aid m \<longleftrightarrow> aid = 0 \<or> aid = ID (Anilist m)"

text \<open>A candidate satisfies the acceptance condition on its own.\<close>

definition acceptable :: "int \<Rightarrow> real \<Rightarrow> real \<Rightarrow> TraceMoeResult \<Rightarrow> bool" where
  "acceptable aid timestampSec threshold m \<longleftrightarrow>
     passesTitleFilter aid m \<and> withinRangeOrThreshold timestampSec (From m) (To m) threshold"

text \<open>The reason the loop appends for a candidate it rejects.\<close>

definition rejection :: "int \<Rightarrow> real \<Rightarrow> real \<Rightarrow> string \<Rightarrow> string \<Rightarrow> TraceMoeResult \<Rightarrow> reason" where
  "rejection aid timestampSec threshold video fname m =
     (if passesTitleFilter aid m
      then TimestampMismatch timestampSec (From m) (To m) threshold video fname
      else AniListIDMismatch aid (ID (Anilist m)) video fname)"

text \<open>The error of a failed recognition call; a decoded reply is no failure.\<close>

fun io_error :: "io_outcome \<Rightarrow> identify_error option" where
  "io_error OpenFails = Some FailedToOpenFrame"
| "io_error ReadFails = Some FailedToReadFrame"
| "io_error NewRequestFails = Some FailedToCreateRequest"
| "io_error DoFails = Some FailedToSendFrame"
| "io_error DecodeFails = Some FailedToParseResponse"
| "io_error (Decoded cs) = None"

text \<open>The number of Match Records a path has produced.\<close>

definition produced_via :: "string \<Rightarrow> MatchInfo list \<Rightarrow> int" where
  "produced_via p ms = int (length (filter (\<lambda>m. mi_ProxyUsed m = p) ms))"

text \<open>Every candidate of a reply has a similarity above 0.\<close>

fun positive_similarities :: "io_outcome \<Rightarrow> bool" where
  "positive_similarities (Decoded cs) = (\<forall>m \<in> set cs. Similarity m > 0)"
| "positive_similarities _ = True"

definition positive_input :: "iter_in \<Rightarrow> bool" where
  "positive_input x \<longleftrightarrow>
     positive_similarities (first_io x) \<and> (\<forall>r \<in> {1, 2, 3}. positive_similarities (retry_io x r))"

text \<open>A candidate for evaluating the functions: AniList id, episode, range, similarity.\<close>

definition candidate :: "int \<Rightarrow> real \<Rightarrow> real \<Rightarrow> real \<Rightarrow> real \<Rightarrow> TraceMoeResult" where
  "candidate aid ep mFrom mTo sim =
     \<lparr>Anilist = \<lparr>ID = aid, IDMal = 0,
                 Title = \<lparr>Native = [], Romaji = [], English = ''Show''\<rparr>,
                 Synonyms = [], IsAdult = False\<rparr>,
      Filename = [],
      Episode = \<lparr>Number = ep, Raw = Sprintf_f0_nonneg ep\<rparr>,
      From = mFrom, To = mTo, Similarity = sim, Video = [], Image = []\<rparr>"

definition failing_input :: iter_in where
  "failing_input = \<lparr>which = RecvFrame, first_io = DoFails, retry_io = (\<lambda>r. DoFails), pick = PickSend\<rparr>"

definition reply_input :: "TraceMoeResult list \<Rightarrow> iter_in" where
  "reply_input cs = \<lparr>which = RecvFrame, first_io = Decoded cs, retry_io = (\<lambda>r. DoFails), pick = PickSend\<rparr>"

subsection \<open>Notions used in the proofs\<close>

text \<open>Two states agree on everything but \<open>Matches\<close> and \<open>stdout\<close>.\<close>

definition registry_same :: "EpisodeIdentifier \<Rightarrow> EpisodeIdentifier \<Rightarrow> bool" where
  "registry_same ei ei' \<longleftrightarrow>
     httpClients ei' = httpClients ei \<and> frameCounts ei' = frameCounts ei \<and>
     failCounts ei' = failCounts ei \<and> brokenProxies ei' = brokenProxies ei \<and>
     done_closed ei' = done_closed ei \<and> channelClosed ei' = channelClosed ei \<and>
     aniListID ei' = aniListID ei"

text \<open>From the first state to the second no path is revived and no client is added.\<close>

definition retired_kept :: "EpisodeIdentifier \<Rightarrow> EpisodeIdentifier \<Rightarrow> bool" where
  "retired_kept ei ei' \<longleftrightarrow>
     (\<forall>q. lookupF (brokenProxies ei) q \<longrightarrow> lookupF (brokenProxies ei') q) \<and>
     set (httpClients ei') \<subseteq> set (httpClients ei)"

text \<open>
  The two ways the worker reads the result of a call: \<open>matched\<close> is the test
  \<^verbatim>\<open>err == nil && similarity > 0\<close> of the retry loop, \<open>failing\<close> the test
  \<^verbatim>\<open>err != nil || similarity == 0\<close> after it.
\<close>

definition failing :: "identify_result \<Rightarrow> bool" where
  "failing res \<longleftrightarrow> (case res of (info, sim, err) \<Rightarrow> err \<noteq> None \<or> sim = 0)"

definition matched :: "identify_result \<Rightarrow> bool" where
  "matched res \<longleftrightarrow> (case res of (info, sim, err) \<Rightarrow> err = None \<and> 0 < sim)"

text \<open>
  A call (or the retry loop) started with the match list \<open>ms\<close> either reports a match and
  has appended one record of the path, or reports none and has left the list as it was.
\<close>

definition call_effect ::
  "string \<Rightarrow> MatchInfo list \<Rightarrow> EpisodeIdentifier \<times> identify_result \<Rightarrow> bool" where
  "call_effect p ms R \<longleftrightarrow>
     (matched (snd R) \<and> (\<exists>r. Matches (fst R) = ms @ [r] \<and> mi_ProxyUsed r = p)) \<or>
     (failing (snd R) \<and> Matches (fst R) = ms)"

text \<open>What one received frame does to the counter and to the match list.\<close>

definition step_effect :: "string \<Rightarrow> EpisodeIdentifier \<Rightarrow> EpisodeIdentifier \<Rightarrow> bool" where
  "step_effect p ei ei' \<longleftrightarrow>
     (frameCounts ei' = frameCounts ei \<and> Matches ei' = Matches ei) \<or>
     (frameCounts ei' = incr (frameCounts ei) p \<and>
      (\<exists>r. Matches ei' = Matches ei @ [r] \<and> mi_ProxyUsed r = p))"



section \<open>Properties\<close>

subsection \<open>Evaluating candidates\<close>

lemma candidate_sel [simp]:
  "ID (Anilist (candidate aid ep a b sim)) = aid"
  "From (candidate aid ep a b sim) = a"
  "To (candidate aid ep a b sim) = b"
  "Similarity (candidate aid ep a b sim) = sim"
  by (simp_all add: candidate_def)








text \<open>
  The loop passes over a prefix of candidates none of which is acceptable, appending one
  reason for each.
\<close>

lemma scanResults_rejected_prefix:
  "\<forall>m \<in> set pre. \<not> acceptable aid ts th m \<Longrightarrow>
   scanResults aid ts th v f (pre @ rest) rs fd =
   scanResults aid ts th v f rest (rs @ map (rejection aid ts th v f) pre)
     (fd \<or> (\<exists>m \<in> set pre. passesTitleFilter aid m))"
proof (induction pre arbitrary: rs fd)
  case Nil
  then show ?case by simp
next
  case (Cons a pre)
  then show ?case
    by (auto simp: acceptable_def passesTitleFilter_def rejection_def)
qed

lemma scanResults_first_acceptable:
  assumes "\<forall>m \<in> set pre. \<not> acceptable aid ts th m" and "acceptable aid ts th c"
  shows "scanResults aid ts th v f (pre @ c # post) rs fd =
           (Some c, rs @ map (rejection aid ts th v f) pre,
            fd \<or> (\<exists>m \<in> set pre. passesTitleFilter aid m))"
  using assms(2) unfolding scanResults_rejected_prefix [OF assms(1)]
  by (auto simp: acceptable_def passesTitleFilter_def)

lemma scanResults_none_acceptable:
  assumes "\<forall>m \<in> set cs. \<not> acceptable aid ts th m"
  shows "scanResults aid ts th v f cs rs fd =
           (None, rs @ map (rejection aid ts th v f) cs,
            fd \<or> (\<exists>m \<in> set cs. passesTitleFilter aid m))"
  using scanResults_rejected_prefix [OF assms, of v f "[]" rs fd] by simp

lemma IdentifyEpisode_accepts:
  assumes "\<not> lookupF (brokenProxies ei) proxyURL"
      and "\<forall>m \<in> set pre. \<not> acceptable (aniListID ei) (extractTimestampInSeconds L path) th m"
      and "acceptable (aniListID ei) (extractTimestampInSeconds L path) th c"
  shows "IdentifyEpisode L (Decoded (pre @ c # post)) ei path th proxyURL =
           (ei\<lparr>Matches := Matches ei @
                 [makeMatchInfo L c (extractTimestampInSeconds L path)
                    (Base L (Dir L path)) (Base L path) proxyURL]\<rparr>,
            (Some (makeInfo L c (extractTimestampInSeconds L path)
                    (Base L (Dir L path)) (Base L path) proxyURL),
             Similarity c, None))"
  using assms(1)
  by (simp add: IdentifyEpisode_def Let_def scanResults_first_acceptable [OF assms(2,3)])

lemma IdentifyEpisode_rejects:
  assumes "\<not> lookupF (brokenProxies ei) proxyURL"
      and "\<forall>m \<in> set cs. \<not> acceptable (aniListID ei) (extractTimestampInSeconds L path) th m"
  shows "IdentifyEpisode L (Decoded cs) ei path th proxyURL =
           (say ei (noMatchEvent (Base L (Dir L path)) (Base L path)
                      (map (rejection (aniListID ei) (extractTimestampInSeconds L path) th
                              (Base L (Dir L path)) (Base L path)) cs)
                      (\<exists>m \<in> set cs. passesTitleFilter (aniListID ei) m)),
            (None, 0, None))"
  using assms(1)
  by (simp add: IdentifyEpisode_def Let_def scanResults_none_acceptable [OF assms(2)])

text \<open>Facts for evaluating the functions on concrete inputs.\<close>

lemma test_timestamp [simp]: "extractTimestampInSeconds test_stdlib p = 100"
  by (simp add: extractTimestampInSeconds_def test_stdlib_def)

lemma test_paths [simp]:
  "Base test_stdlib p = p" "Dir test_stdlib p = ''video''"
  by (simp_all add: test_stdlib_def)

lemma New_direct [simp]:
  "aniListID (NewEpisodeIdentifier e aid ps) = aid"
  "Matches (NewEpisodeIdentifier e aid ps) = []"
  "done_closed (NewEpisodeIdentifier e aid ps) = False"
  "channelClosed (NewEpisodeIdentifier e aid ps) = False"
  by (simp_all add: NewEpisodeIdentifier_def Let_def)

lemma New_not_broken [simp]: "\<not> lookupF (brokenProxies (NewEpisodeIdentifier e aid ps)) p"
proof -
  have "map_of (map (\<lambda>u. (u, False)) us) p \<noteq> Some True" for us :: "string list"
    by (induction us) auto
  then show ?thesis
    by (auto simp: NewEpisodeIdentifier_def Let_def lookupF_def split: option.splits)
qed

text \<open>
  Claim C2. Whenever the reply lists candidates \<open>pre @ c # post\<close> where no candidate of
  \<open>pre\<close> satisfies the acceptance condition and \<open>c\<close> does, the Match Evaluator accepts
  \<open>c\<close>: the loop stops at \<open>c\<close> having collected reasons for \<open>pre\<close> only, the record
  appended and the similarity returned are those of \<open>c\<close>. Nothing in the result depends on
  \<open>post\<close>, whatever candidates it holds, acceptable or of higher similarity.
\<close>

theorem C2_first_fit:
  assumes "\<not> lookupF (brokenProxies ei) proxyURL"
      and "\<forall>m \<in> set pre. \<not> acceptable (aniListID ei) (extractTimestampInSeconds L path) th m"
      and "acceptable (aniListID ei) (extractTimestampInSeconds L path) th c"
  shows "scanResults (aniListID ei) (extractTimestampInSeconds L path) th
           (Base L (Dir L path)) (Base L path) (pre @ c # post) [] False =
           (Some c,
            map (rejection (aniListID ei) (extractTimestampInSeconds L path) th
                   (Base L (Dir L path)) (Base L path)) pre,
            \<exists>m \<in> set pre. passesTitleFilter (aniListID ei) m) \<and>
         IdentifyEpisode L (Decoded (pre @ c # post)) ei path th proxyURL =
           (ei\<lparr>Matches := Matches ei @
                 [makeMatchInfo L c (extractTimestampInSeconds L path)
                    (Base L (Dir L path)) (Base L path) proxyURL]\<rparr>,
            (Some (makeInfo L c (extractTimestampInSeconds L path)
                    (Base L (Dir L path)) (Base L path) proxyURL),
             Similarity c, None))"
  using scanResults_first_acceptable [OF assms(2,3), of "Base L (Dir L path)" "Base L path" post "[]" False]
        IdentifyEpisode_accepts [OF assms]
  by simp

text \<open>
  Three candidates: the first is out of range, the second and the third both satisfy the
  acceptance condition, the third with the higher similarity (0.99 against 0.5). The second
  is returned.
\<close>

theorem C2_first_fit_witness:
  "\<not> lookupF (brokenProxies (NewEpisodeIdentifier [] 0 [])) Direct \<and>
   \<not> acceptable (aniListID (NewEpisodeIdentifier [] 0 []))
       (extractTimestampInSeconds test_stdlib ''f'') 5 (candidate 7 1 0 10 0.99) \<and>
   acceptable (aniListID (NewEpisodeIdentifier [] 0 []))
     (extractTimestampInSeconds test_stdlib ''f'') 5 (candidate 7 2 90 110 0.5) \<and>
   acceptable (aniListID (NewEpisodeIdentifier [] 0 []))
     (extractTimestampInSeconds test_stdlib ''f'') 5 (candidate 7 3 95 105 0.99) \<and>
   fst (snd (snd (IdentifyEpisode test_stdlib
     (Decoded ([candidate 7 1 0 10 0.99] @ candidate 7 2 90 110 0.5 # [candidate 7 3 95 105 0.99]))
     (NewEpisodeIdentifier [] 0 []) ''f'' 5 Direct))) = 0.5"
proof -
  have h1: "\<not> lookupF (brokenProxies (NewEpisodeIdentifier [] 0 [])) Direct" by simp
  have h2: "\<forall>m \<in> set [candidate 7 1 0 10 0.99].
      \<not> acceptable (aniListID (NewEpisodeIdentifier [] 0 []))
          (extractTimestampInSeconds test_stdlib ''f'') 5 m"
    by (simp add: acceptable_def withinRangeOrThreshold_def)
  have h3: "acceptable (aniListID (NewEpisodeIdentifier [] 0 []))
     (extractTimestampInSeconds test_stdlib ''f'') 5 (candidate 7 2 90 110 0.5)"
    by (simp add: acceptable_def withinRangeOrThreshold_def passesTitleFilter_def)
  have h4: "acceptable (aniListID (NewEpisodeIdentifier [] 0 []))
     (extractTimestampInSeconds test_stdlib ''f'') 5 (candidate 7 3 95 105 0.99)"
    by (simp add: acceptable_def withinRangeOrThreshold_def passesTitleFilter_def)
  show ?thesis
    using h1 h2 h3 h4 C2_first_fit [OF h1 h2 h3, of "[candidate 7 3 95 105 0.99]"]
    by simp
qed

lemma noMatchEvent_map:
  "noMatchEvent v f (map g cs) found =
     (if found \<and> cs \<noteq> [] then FailedToIdentify v f (g (hd cs)) (length cs)
      else NoMatchFound v f)"
  by (cases cs) (simp_all add: noMatchEvent_def)

text \<open>
  Claim C5, as amended. When no candidate of the reply is accepted, the call returns the
  empty text, similarity 0 and a nil error; it appends nothing to \<open>Matches\<close> and changes
  the state only by printing one message; the loop has collected one rejection reason per
  candidate, in order. The message carries the first collected reason (and the number of
  reasons) when at least one candidate passed the title filter; when none did, or the reply
  was empty, the message is the generic one and carries no reason.
\<close>

theorem C5_no_match:
  assumes "\<not> lookupF (brokenProxies ei) proxyURL"
      and "\<forall>m \<in> set cs. \<not> acceptable (aniListID ei) (extractTimestampInSeconds L path) th m"
  shows "IdentifyEpisode L (Decoded cs) ei path th proxyURL =
           (ei\<lparr>stdout := stdout ei @
                 [if \<exists>m \<in> set cs. passesTitleFilter (aniListID ei) m
                  then FailedToIdentify (Base L (Dir L path)) (Base L path)
                         (rejection (aniListID ei) (extractTimestampInSeconds L path) th
                            (Base L (Dir L path)) (Base L path) (hd cs))
                         (length cs)
                  else NoMatchFound (Base L (Dir L path)) (Base L path)]\<rparr>,
            (None, 0, None)) \<and>
         scanResults (aniListID ei) (extractTimestampInSeconds L path) th
           (Base L (Dir L path)) (Base L path) cs [] False =
           (None,
            map (rejection (aniListID ei) (extractTimestampInSeconds L path) th
                   (Base L (Dir L path)) (Base L path)) cs,
            \<exists>m \<in> set cs. passesTitleFilter (aniListID ei) m)"
proof -
  have ne: "(\<exists>m \<in> set cs. passesTitleFilter (aniListID ei) m) \<Longrightarrow> cs \<noteq> []"
    by auto
  show ?thesis
    using ne
    by (auto simp: IdentifyEpisode_rejects [OF assms] noMatchEvent_map say_def
          scanResults_none_acceptable [OF assms(2)])
qed

text \<open>Two candidates of the right title, both out of range: the first reason is printed.\<close>

theorem C5_no_match_witness:
  "\<not> lookupF (brokenProxies (NewEpisodeIdentifier [] 0 [])) Direct \<and>
   \<not> acceptable (aniListID (NewEpisodeIdentifier [] 0 []))
       (extractTimestampInSeconds test_stdlib ''f'') 5 (candidate 7 1 0 10 0.9) \<and>
   \<not> acceptable (aniListID (NewEpisodeIdentifier [] 0 []))
       (extractTimestampInSeconds test_stdlib ''f'') 5 (candidate 7 2 20 30 0.8) \<and>
   IdentifyEpisode test_stdlib (Decoded [candidate 7 1 0 10 0.9, candidate 7 2 20 30 0.8])
     (NewEpisodeIdentifier [] 0 []) ''f'' 5 Direct =
     ((NewEpisodeIdentifier [] 0 [])
        \<lparr>stdout := stdout (NewEpisodeIdentifier [] 0 []) @
           [FailedToIdentify ''video'' ''f'' (TimestampMismatch 100 0 10 5 ''video'' ''f'') 2]\<rparr>,
      (None, 0, None))"
proof -
  let ?ei = "NewEpisodeIdentifier [] 0 []"
  let ?cs = "[candidate 7 1 0 10 0.9, candidate 7 2 20 30 0.8]"
  have h1: "\<not> lookupF (brokenProxies ?ei) Direct" by simp
  have h2: "\<forall>m \<in> set ?cs.
      \<not> acceptable (aniListID ?ei) (extractTimestampInSeconds test_stdlib ''f'') 5 m"
    by (simp add: acceptable_def withinRangeOrThreshold_def)
  show ?thesis
    using h1 h2 C5_no_match [OF h1 h2]
    by (auto simp: rejection_def passesTitleFilter_def)
qed

text \<open>
  The claim as stated fails when every rejection is a title mismatch: with the filter on
  AniList id 1 and one candidate of id 2, the reason is collected, no match is returned,
  and the output is the generic message, which carries no reason.
\<close>

theorem C5_counterexample:
  "scanResults 1 100 5 ''video'' ''f'' [candidate 2 1 90 110 0.9] [] False =
     (None, [AniListIDMismatch 1 2 ''video'' ''f''], False) \<and>
   fst (snd (IdentifyEpisode test_stdlib (Decoded [candidate 2 1 90 110 0.9])
     (NewEpisodeIdentifier [] 1 []) ''f'' 5 Direct)) = None \<and>
   stdout (fst (IdentifyEpisode test_stdlib (Decoded [candidate 2 1 90 110 0.9])
     (NewEpisodeIdentifier [] 1 []) ''f'' 5 Direct)) =
     [NoProxiesProvided, NoMatchFound ''video'' ''f'']"
  by (simp add: IdentifyEpisode_def Let_def say_def noMatchEvent_def
        NewEpisodeIdentifier_def lookupF_def Direct_def)

lemma makeMatchInfo_sel [simp]:
  "mi_Similarity (makeMatchInfo L c t v f p) = Similarity c * 100"
  "mi_ProxyUsed (makeMatchInfo L c t v f p) = p"
  by (simp_all add: makeMatchInfo_def)

text \<open>
  Claim C7, as amended. The Match Record appended on acceptance stores the candidate's
  similarity multiplied by 100, the same percentage the returned text displays; the
  service-reported value is what the call returns as its similarity result.
\<close>

theorem C7_stored_similarity:
  assumes "\<not> lookupF (brokenProxies ei) proxyURL"
      and "\<forall>m \<in> set pre. \<not> acceptable (aniListID ei) (extractTimestampInSeconds L path) th m"
      and "acceptable (aniListID ei) (extractTimestampInSeconds L path) th c"
  shows "map mi_Similarity
           (Matches (fst (IdentifyEpisode L (Decoded (pre @ c # post)) ei path th proxyURL))) =
           map mi_Similarity (Matches ei) @ [Similarity c * 100] \<and>
         snd (IdentifyEpisode L (Decoded (pre @ c # post)) ei path th proxyURL) =
           (Some (MatchFound (displayTitle c) (String L (Episode c)) (Similarity c * 100)
                    (extractTimestampInSeconds L path) (From c) (To c)
                    (Base L (Dir L path)) (Base L path) proxyURL),
            Similarity c, None)"
  by (simp add: IdentifyEpisode_accepts [OF assms] makeInfo_def)

text \<open>A candidate reported with similarity 0.5 is stored with 50 and returned with 0.5.\<close>

theorem C7_stored_similarity_witness:
  "\<not> lookupF (brokenProxies (NewEpisodeIdentifier [] 0 [])) Direct \<and>
   acceptable (aniListID (NewEpisodeIdentifier [] 0 []))
     (extractTimestampInSeconds test_stdlib ''f'') 5 (candidate 7 2 90 110 0.5) \<and>
   map mi_Similarity (Matches (fst (IdentifyEpisode test_stdlib
     (Decoded [candidate 7 2 90 110 0.5]) (NewEpisodeIdentifier [] 0 []) ''f'' 5 Direct))) = [50] \<and>
   fst (snd (snd (IdentifyEpisode test_stdlib
     (Decoded [candidate 7 2 90 110 0.5]) (NewEpisodeIdentifier [] 0 []) ''f'' 5 Direct))) = 0.5"
proof -
  let ?ei = "NewEpisodeIdentifier [] 0 []"
  have h1: "\<not> lookupF (brokenProxies ?ei) Direct" by simp
  have h2: "\<forall>m \<in> set []. \<not> acceptable (aniListID ?ei)
          (extractTimestampInSeconds test_stdlib ''f'') 5 m" by simp
  have h3: "acceptable (aniListID ?ei)
     (extractTimestampInSeconds test_stdlib ''f'') 5 (candidate 7 2 90 110 0.5)"
    by (simp add: acceptable_def withinRangeOrThreshold_def passesTitleFilter_def)
  show ?thesis
    using h1 h2 h3 C7_stored_similarity [OF h1 h2 h3, of "[]"]
    by simp
qed

text \<open>
  The claim as stated fails: the stored similarity of an accepted candidate reported with
  0.5 is not 0.5.
\<close>

theorem C7_counterexample:
  "map mi_Similarity (Matches (fst (IdentifyEpisode test_stdlib
     (Decoded [candidate 7 2 90 110 0.5]) (NewEpisodeIdentifier [] 0 []) ''f'' 5 Direct)))
   \<noteq> [Similarity (candidate 7 2 90 110 0.5)]"
  by (simp add: IdentifyEpisode_def Let_def makeMatchInfo_def withinRangeOrThreshold_def
        NewEpisodeIdentifier_def lookupF_def Direct_def)


subsection \<open>The episode number\<close>

lemma decode_numeric:
  "numeric_interpretation L d = Some x \<Longrightarrow>
   decode_episode L d = \<lparr>Number = x, Raw = Sprintf_f0 L x\<rparr>"
  by (cases d)
     (simp_all add: decode_episode_def UnmarshalJSON_def unmarshal_float64_def
        unmarshal_string_def zero_EpisodeNumber_def)

lemma decode_raw:
  "ParseFloat L s = None \<Longrightarrow> decode_episode L (JString s) = \<lparr>Number = 0, Raw = s\<rparr>"
  by (simp add: decode_episode_def UnmarshalJSON_def unmarshal_float64_def
        unmarshal_string_def zero_EpisodeNumber_def)

lemma String_numeric: "String L \<lparr>Number = x, Raw = Sprintf_f0 L x\<rparr> = Sprintf_f0 L x"
  by (simp add: String_def)

lemma String_raw: "String L \<lparr>Number = 0, Raw = s\<rparr> = s"
  by (simp add: String_def)

lemma test_ParseFloat [simp]:
  "ParseFloat test_stdlib ''5'' = Some 5"
  "ParseFloat test_stdlib ''12'' = Some 12"
  "ParseFloat test_stdlib ''0'' = Some 0"
  "ParseFloat test_stdlib ''OVA'' = None"
  by (simp_all add: test_stdlib_def ParseFloat_digits_def digit_val_def)

lemma test_Sprintf [simp]:
  "Sprintf_f0 test_stdlib 5 = ''5''"
  "Sprintf_f0 test_stdlib 12 = ''12''"
  "Sprintf_f0 test_stdlib 0 = ''0''"
  by (simp_all add: test_stdlib_def Sprintf_f0_nonneg_def round_half_even_def
        show_nat.simps digit_char_def)

text \<open>
  Claim C6. Whatever the standard library is: if \<^verbatim>\<open>ParseFloat\<close> reads \<^verbatim>\<open>"5"\<close> as 5
  and rejects \<^verbatim>\<open>"OVA"\<close>, and \<^verbatim>\<open>%.0f\<close> prints 5 as \<^verbatim>\<open>5\<close>, then decoding the string
  \<^verbatim>\<open>"5"\<close>, the number 5 and the string \<^verbatim>\<open>"OVA"\<close> and rendering each gives \<^verbatim>\<open>5\<close>,
  \<^verbatim>\<open>5\<close> and \<^verbatim>\<open>OVA\<close>. For every episode value with a numeric interpretation \<open>x\<close>
  the decoded value is \<open>x\<close> with its formatted text, and it renders as that text
  (the numeric interpretation is authoritative); for every string without one the decoded
  value keeps the string verbatim and renders as it. A value decoded from a numeric origin
  differs from every value decoded from a non-numeric string, given that the text printed
  for 0 parses as a number. (A numeric string and the number it denotes decode to the same
  value: both are numeric origins.)
\<close>

theorem C6_episode_roundtrip:
  "(ParseFloat L ''5'' = Some 5 \<and> Sprintf_f0 L 5 = ''5'' \<and> ParseFloat L ''OVA'' = None \<longrightarrow>
      String L (decode_episode L (JString ''5'')) = ''5'' \<and>
      String L (decode_episode L (JNumber 5)) = ''5'' \<and>
      String L (decode_episode L (JString ''OVA'')) = ''OVA'') \<and>
   (numeric_interpretation L d = Some x \<longrightarrow>
      decode_episode L d = \<lparr>Number = x, Raw = Sprintf_f0 L x\<rparr> \<and>
      String L (decode_episode L d) = Sprintf_f0 L x) \<and>
   (ParseFloat L s = None \<longrightarrow>
      decode_episode L (JString s) = \<lparr>Number = 0, Raw = s\<rparr> \<and>
      String L (decode_episode L (JString s)) = s) \<and>
   (ParseFloat L (Sprintf_f0 L 0) \<noteq> None \<and> numeric_interpretation L d = Some x \<and>
    ParseFloat L s = None \<longrightarrow>
      decode_episode L d \<noteq> decode_episode L (JString s))"
proof (intro conjI impI)
  assume a: "ParseFloat L ''5'' = Some 5 \<and> Sprintf_f0 L 5 = ''5'' \<and> ParseFloat L ''OVA'' = None"
  then have n1: "numeric_interpretation L (JString ''5'') = Some 5"
    and n2: "numeric_interpretation L (JNumber 5) = Some 5" by simp_all
  from a show "String L (decode_episode L (JString ''5'')) = ''5''"
    by (simp add: decode_numeric [OF n1] String_def)
  from a show "String L (decode_episode L (JNumber 5)) = ''5''"
    by (simp add: decode_numeric [OF n2] String_def)
  from a show "String L (decode_episode L (JString ''OVA'')) = ''OVA''"
    by (simp add: decode_raw String_def)
next
  assume n: "numeric_interpretation L d = Some x"
  show "decode_episode L d = \<lparr>Number = x, Raw = Sprintf_f0 L x\<rparr>"
    by (rule decode_numeric [OF n])
  show "String L (decode_episode L d) = Sprintf_f0 L x"
    by (simp add: decode_numeric [OF n] String_def)
next
  assume p: "ParseFloat L s = None"
  show "decode_episode L (JString s) = \<lparr>Number = 0, Raw = s\<rparr>"
    by (rule decode_raw [OF p])
  show "String L (decode_episode L (JString s)) = s"
    by (simp add: decode_raw [OF p] String_def)
next
  assume h: "ParseFloat L (Sprintf_f0 L 0) \<noteq> None \<and> numeric_interpretation L d = Some x \<and>
    ParseFloat L s = None"
  show "decode_episode L d \<noteq> decode_episode L (JString s)"
  proof
    assume "decode_episode L d = decode_episode L (JString s)"
    with h have "\<lparr>Number = x, Raw = Sprintf_f0 L x\<rparr> = \<lparr>Number = 0, Raw = s\<rparr>"
      by (auto simp: decode_numeric decode_raw)
    then have "Sprintf_f0 L 0 = s" by auto
    with h show False by auto
  qed
qed

text \<open>The concrete standard library satisfies the hypotheses; values \<^verbatim>\<open>"12"\<close> and \<^verbatim>\<open>"OVA"\<close>.\<close>

theorem C6_episode_roundtrip_witness:
  "ParseFloat test_stdlib ''5'' = Some 5 \<and> Sprintf_f0 test_stdlib 5 = ''5'' \<and>
   ParseFloat test_stdlib ''OVA'' = None \<and>
   ParseFloat test_stdlib (Sprintf_f0 test_stdlib 0) \<noteq> None \<and>
   numeric_interpretation test_stdlib (JString ''12'') = Some 12 \<and>
   String test_stdlib (decode_episode test_stdlib (JString ''5'')) = ''5'' \<and>
   String test_stdlib (decode_episode test_stdlib (JNumber 5)) = ''5'' \<and>
   String test_stdlib (decode_episode test_stdlib (JString ''OVA'')) = ''OVA'' \<and>
   decode_episode test_stdlib (JString ''12'') = \<lparr>Number = 12, Raw = ''12''\<rparr> \<and>
   decode_episode test_stdlib (JString ''OVA'') = \<lparr>Number = 0, Raw = ''OVA''\<rparr> \<and>
   decode_episode test_stdlib (JString ''12'') \<noteq> decode_episode test_stdlib (JString ''OVA'')"
  using C6_episode_roundtrip [of test_stdlib "JString ''12''" 12 "''OVA''"]
  by (simp add: String_def)

subsection \<open>The requeue\<close>





subsection \<open>One recognition call\<close>

lemma say_fields [simp]:
  "Matches (say ei e) = Matches ei"
  "httpClients (say ei e) = httpClients ei"
  "frameCounts (say ei e) = frameCounts ei"
  "failCounts (say ei e) = failCounts ei"
  "brokenProxies (say ei e) = brokenProxies ei"
  "done_closed (say ei e) = done_closed ei"
  "channelClosed (say ei e) = channelClosed ei"
  "aniListID (say ei e) = aniListID ei"
  "stdout (say ei e) = stdout ei @ [e]"
  by (simp_all add: say_def)

lemma io_error_None: "io_error io = None \<longleftrightarrow> (\<exists>cs. io = Decoded cs)"
  by (cases io) simp_all

lemma IdentifyEpisode_broken:
  "lookupF (brokenProxies ei) p \<Longrightarrow>
   IdentifyEpisode L io ei f th p = (ei, (None, 0, Some (ProxyMarkedBroken p)))"
  by (simp add: IdentifyEpisode_def)

lemma IdentifyEpisode_io_fails:
  "\<not> lookupF (brokenProxies ei) p \<Longrightarrow> io_error io = Some e \<Longrightarrow>
   IdentifyEpisode L io ei f th p = (ei, (None, 0, Some e))"
  by (cases io) (simp_all add: IdentifyEpisode_def)

lemma scanResults_Some_mem:
  "scanResults aid ts th v f cs rs fd = (Some m, rs', fd') \<Longrightarrow> m \<in> set cs"
  by (induction cs arbitrary: rs fd) (auto split: if_splits)

text \<open>The three shapes of a result of \<open>IdentifyEpisode\<close>.\<close>

lemma IdentifyEpisode_shape:
  "(\<exists>e. IdentifyEpisode L io ei f th p = (ei, (None, 0, Some e))) \<or>
   (\<exists>ev. IdentifyEpisode L io ei f th p = (say ei ev, (None, 0, None))) \<or>
   (\<exists>cs m. io = Decoded cs \<and> m \<in> set cs \<and>
      IdentifyEpisode L io ei f th p =
        (ei\<lparr>Matches := Matches ei @
              [makeMatchInfo L m (extractTimestampInSeconds L f) (Base L (Dir L f)) (Base L f) p]\<rparr>,
         (Some (makeInfo L m (extractTimestampInSeconds L f) (Base L (Dir L f)) (Base L f) p),
          Similarity m, None)))"
proof (cases "lookupF (brokenProxies ei) p")
  case True
  then show ?thesis by (simp add: IdentifyEpisode_broken)
next
  case nb: False
  show ?thesis
  proof (cases "io_error io")
    case (Some e)
    then show ?thesis using nb by (simp add: IdentifyEpisode_io_fails)
  next
    case None
    then obtain cs where io: "io = Decoded cs" by (auto simp: io_error_None)
    obtain r rs fd where sc:
      "scanResults (aniListID ei) (extractTimestampInSeconds L f) th (Base L (Dir L f)) (Base L f)
         cs [] False = (r, rs, fd)"
      by (cases "scanResults (aniListID ei) (extractTimestampInSeconds L f) th
                   (Base L (Dir L f)) (Base L f) cs [] False") auto
    show ?thesis
    proof (cases r)
      case None
      with sc io nb have
        "IdentifyEpisode L io ei f th p =
           (say ei (noMatchEvent (Base L (Dir L f)) (Base L f) rs fd), (None, 0, None))"
        by (simp add: IdentifyEpisode_def Let_def)
      then show ?thesis by blast
    next
      case (Some m)
      with sc have mem: "m \<in> set cs" by (auto dest: scanResults_Some_mem)
      from Some sc io nb have
        "IdentifyEpisode L io ei f th p =
        (ei\<lparr>Matches := Matches ei @
              [makeMatchInfo L m (extractTimestampInSeconds L f) (Base L (Dir L f)) (Base L f) p]\<rparr>,
         (Some (makeInfo L m (extractTimestampInSeconds L f) (Base L (Dir L f)) (Base L f) p),
          Similarity m, None))"
        by (simp add: IdentifyEpisode_def Let_def)
      with mem io show ?thesis by blast
    qed
  qed
qed

text \<open>\<open>IdentifyEpisode\<close> touches \<open>Matches\<close> and \<open>stdout\<close> only.\<close>

lemma IdentifyEpisode_frame:
  assumes "IdentifyEpisode L io ei f th p = (ei', res)"
  shows "httpClients ei' = httpClients ei \<and> frameCounts ei' = frameCounts ei \<and>
         failCounts ei' = failCounts ei \<and> brokenProxies ei' = brokenProxies ei \<and>
         done_closed ei' = done_closed ei \<and> channelClosed ei' = channelClosed ei \<and>
         aniListID ei' = aniListID ei"
  using IdentifyEpisode_shape [of L io ei f th p] assms by auto

lemma IdentifyEpisode_error_keeps:
  assumes "IdentifyEpisode L io ei f th p = (ei', (info, sim, Some e))"
  shows "ei' = ei \<and> sim = 0 \<and> info = None"
  using IdentifyEpisode_shape [of L io ei f th p] assms by auto

lemma registry_same_refl [simp]: "registry_same ei ei"
  by (simp add: registry_same_def)

lemma registry_same_trans:
  "registry_same a b \<Longrightarrow> registry_same b c \<Longrightarrow> registry_same a c"
  by (simp add: registry_same_def)

lemma registry_same_say [simp]: "registry_same ei (say ei' e) = registry_same ei ei'"
  by (simp add: registry_same_def)

lemma IdentifyEpisode_registry:
  "IdentifyEpisode L io ei f th p = (ei', res) \<Longrightarrow> registry_same ei ei'"
  using IdentifyEpisode_frame [of L io ei f th p ei' res] by (simp add: registry_same_def)

subsection \<open>The retry loop\<close>

lemma retryLoop_registry:
  "retryLoop L rio p th f retry s = s2 \<Longrightarrow> registry_same (fst s) (fst s2)"
proof (induction L rio p th f retry s arbitrary: s2 rule: retryLoop.induct)
  case (1 L rio p th f retry ei res)
  show ?case
  proof (cases "retry \<le> 3")
    case False
    with "1.prems" show ?thesis by (simp add: retryLoop.simps)
  next
    case le: True
    obtain ei' info sim err where id:
      "IdentifyEpisode L (rio retry) ei f th p = (ei', (info, sim, err))"
      by (metis prod_cases4)
    have r1: "registry_same ei ei'" by (rule IdentifyEpisode_registry [OF id])
    show ?thesis
    proof (cases "err = None \<and> sim > 0")
      case True
      with "1.prems" le id r1 show ?thesis by (auto simp: retryLoop.simps)
    next
      case False
      with "1.prems" le id have eq:
        "retryLoop L rio p th f (retry + 1) (say ei' (RetryFailed retry err), (info, sim, err)) = s2"
        by (auto simp: retryLoop.simps [of L rio p th f retry])
      have "registry_same (fst (say ei' (RetryFailed retry err), (info, sim, err))) (fst s2)"
        using "1.IH" [OF le id [symmetric] refl refl _ eq] False by blast
      with r1 show ?thesis by (simp add: registry_same_def)
    qed
  qed
qed





subsection \<open>The worker on the direct connection and on a retired path\<close>

lemma afterIdentify_fields [simp]:
  "Matches (afterIdentify ei p f info sim) = Matches ei"
  "httpClients (afterIdentify ei p f info sim) = httpClients ei"
  "failCounts (afterIdentify ei p f info sim) = failCounts ei"
  "brokenProxies (afterIdentify ei p f info sim) = brokenProxies ei"
  "done_closed (afterIdentify ei p f info sim) = done_closed ei"
  "channelClosed (afterIdentify ei p f info sim) = channelClosed ei"
  "frameCounts (afterIdentify ei p f info sim) =
     (if sim = 0 then frameCounts ei else incr (frameCounts ei) p)"
  by (simp_all add: afterIdentify_def Let_def)


lemma processFrames_iter_recv:
  "which x = RecvFrame \<Longrightarrow> buf frames = frame # rest \<Longrightarrow>
   processFrames_iter L x p th ei frames = Some (processFrame L x p th ei (frames\<lparr>buf := rest\<rparr>) frame)"
  by (simp add: processFrames_iter_def)

text \<open>
  Claim C9. When the worker of a path takes a frame from the queue and finds its path
  marked as broken, the iteration returns (the worker exits): the frame has left the queue
  and is not put back, no recognition call is made, and nothing but the printed line
  changes in the state. The frame is lost. This happens on the receive itself, whatever
  the outcome of an earlier requeue.
\<close>

theorem C9_dequeued_frame_lost:
  assumes "which x = RecvFrame" and "buf frames = frame # rest"
      and "lookupF (brokenProxies ei) proxyURL"
  shows "processFrames_iter L x proxyURL th ei frames =
           Some (Inr (Return,
                      ei\<lparr>stdout := stdout ei @ [WorkerTerminatesBroken proxyURL]\<rparr>,
                      frames\<lparr>buf := rest\<rparr>))"
  using assms(3)
  by (simp add: processFrames_iter_recv [OF assms(1,2)] processFrame_def say_def)


subsection \<open>Failure of a proxy path\<close>

lemma retired_kept_refl [simp]: "retired_kept ei ei"
  by (simp add: retired_kept_def)



lemma lookup0_incr: "lookup0 (incr m k) q = (if q = k then lookup0 m k + 1 else lookup0 m q)"
  by (simp add: incr_def lookup0_def)

lemma lookupF_upd: "lookupF (m(k \<mapsto> True)) q \<longleftrightarrow> q = k \<or> lookupF m q"
  by (simp add: lookupF_def)

lemma set_delete_client: "set (delete_client key cl) \<subseteq> set cl"
  by (cases key) (auto simp: delete_client_def)

lemma getClientByProxyURL_upd [simp]:
  "getClientByProxyURL (ei\<lparr>failCounts := fc\<rparr>) p = getClientByProxyURL ei p"
  "getClientByProxyURL (ei\<lparr>brokenProxies := bp\<rparr>) p = getClientByProxyURL ei p"
  by (simp_all add: getClientByProxyURL_def)





lemma handleProxyFailure_kept:
  assumes "handleProxyFailure pk ei p fr f = Inr (ei', fr')"
  shows "retired_kept ei ei' \<and> Matches ei' = Matches ei \<and> frameCounts ei' = frameCounts ei"
  using assms set_delete_client [of "getClientByProxyURL ei p" "httpClients ei"]
  by (auto simp: handleProxyFailure_def Let_def retired_kept_def lookupF_upd
           split: if_splits sum.splits)

lemma retired_kept_say [simp]: "retired_kept ei (say ei' e) = retired_kept ei ei'"
  by (simp add: retired_kept_def)

lemma retired_kept_afterIdentify [simp]:
  "retired_kept ei (afterIdentify ei' p f info sim) = retired_kept ei ei'"
  by (simp add: retired_kept_def)






subsection \<open>The per-path counter\<close>

lemma matched_not_failing: "matched res \<Longrightarrow> \<not> failing res"
  by (auto simp: matched_def failing_def)

lemma IdentifyEpisode_effect:
  assumes "positive_similarities io"
  shows "call_effect p (Matches ei) (IdentifyEpisode L io ei f th p)"
  using IdentifyEpisode_shape [of L io ei f th p] assms
  by (auto simp: call_effect_def matched_def failing_def)

lemma retryLoop_effect:
  "(\<forall>r. retry \<le> r \<and> r \<le> 3 \<longrightarrow> positive_similarities (rio r)) \<Longrightarrow> failing (snd s) \<Longrightarrow>
   call_effect p (Matches (fst s)) (retryLoop L rio p th f retry s)"
proof (induction L rio p th f retry s rule: retryLoop.induct)
  case (1 L rio p th f retry ei res)
  show ?case
  proof (cases "retry \<le> 3")
    case False
    with "1.prems" show ?thesis
      by (simp add: retryLoop.simps call_effect_def)
  next
    case le: True
    obtain ei' info sim err where id:
      "IdentifyEpisode L (rio retry) ei f th p = (ei', (info, sim, err))"
      by (metis prod_cases4)
    from le "1.prems" have "positive_similarities (rio retry)" by simp
    from IdentifyEpisode_effect [OF this, of p ei L f th] id
    have eff: "call_effect p (Matches ei) (ei', (info, sim, err))" by simp
    show ?thesis
    proof (cases "err = None \<and> sim > 0")
      case True
      then have m: "matched (info, sim, err)" by (simp add: matched_def)
      from True le id have
        "retryLoop L rio p th f retry (ei, res) = (say ei' (Println_info info), (info, sim, err))"
        by (simp add: retryLoop.simps [of L rio p th f retry])
      with eff m show ?thesis
        by (auto simp: call_effect_def dest: matched_not_failing)
    next
      case False
      then have nm: "\<not> matched (info, sim, err)" by (simp add: matched_def)
      with eff have fl: "failing (info, sim, err)" and same: "Matches ei' = Matches ei"
        by (auto simp: call_effect_def)
      from False le id have eq:
        "retryLoop L rio p th f retry (ei, res) =
         retryLoop L rio p th f (retry + 1) (say ei' (RetryFailed retry err), (info, sim, err))"
        by (auto simp: retryLoop.simps [of L rio p th f retry])
      have "call_effect p (Matches (fst (say ei' (RetryFailed retry err), (info, sim, err))))
              (retryLoop L rio p th f (retry + 1) (say ei' (RetryFailed retry err), (info, sim, err)))"
        using "1.IH" [OF le id [symmetric] refl refl] False "1.prems"(1) fl by auto
      with eq same show ?thesis by simp
    qed
  qed
qed

lemma produced_via_snoc:
  "produced_via q (ms @ [r]) = produced_via q ms + (if mi_ProxyUsed r = q then 1 else 0)"
  by (simp add: produced_via_def)

lemma step_effect_refl [simp]: "step_effect p ei ei"
  by (simp add: step_effect_def)

lemma step_effect_say [simp]: "step_effect p ei (say ei' e) = step_effect p ei ei'"
  by (simp add: step_effect_def)

lemma after_effect:
  assumes "call_effect p (Matches ei) (ei1, (info, sim, None))"
      and "frameCounts ei1 = frameCounts ei"
  shows "step_effect p ei (afterIdentify ei1 p f info sim)"
  using assms
  by (auto simp: call_effect_def matched_def failing_def step_effect_def)

lemma processFrame_effect:
  assumes "positive_input x" and "processFrame L x p th ei fr f = Inr (ctl, ei', fr')"
  shows "step_effect p ei ei'"
proof (cases "lookupF (brokenProxies ei) p")
  case True
  with assms(2) show ?thesis by (auto simp: processFrame_def)
next
  case nb: False
  obtain ei1 info sim err where id:
    "IdentifyEpisode L (first_io x) ei f th p = (ei1, (info, sim, err))"
    by (metis prod_cases4)
  from assms(1) have p1: "positive_similarities (first_io x)"
    by (simp add: positive_input_def)
  from IdentifyEpisode_effect [OF p1, of p ei L f th] id
  have eff: "call_effect p (Matches ei) (ei1, (info, sim, err))" by simp
  have fc: "frameCounts ei1 = frameCounts ei"
    using IdentifyEpisode_frame [OF id] by simp
  show ?thesis
  proof (cases err)
    case None
    with assms(2) nb id have "ei' = afterIdentify ei1 p f info sim"
      by (auto simp: processFrame_def)
    with after_effect [OF eff [unfolded None] fc] show ?thesis by simp
  next
    case (Some e)
    with eff have same: "Matches ei1 = Matches ei"
      by (auto simp: call_effect_def matched_def)
    show ?thesis
    proof (cases "p = Direct")
      case False
      with assms(2) nb id Some obtain ei2 where
        h: "handleProxyFailure (pick x) ei1 p fr f = Inr (ei2, fr')"
        and e': "ei' = say ei2 (ErrorIdentifying p e)"
        by (auto simp: processFrame_def split: sum.splits)
      from handleProxyFailure_kept [OF h] same fc e' show ?thesis
        by (simp add: step_effect_def)
    next
      case True
      obtain ei2 info2 sim2 err2 where rl:
        "retryLoop L (retry_io x) Direct th f 1 (ei1, (info, sim, Some e)) =
           (ei2, (info2, sim2, err2))"
        by (metis prod_cases4)
      have pos: "\<forall>r. 1 \<le> r \<and> r \<le> 3 \<longrightarrow> positive_similarities (retry_io x r)"
      proof (intro allI impI)
        fix r :: nat
        assume "1 \<le> r \<and> r \<le> 3"
        then have "r \<in> {1, 2, 3}" by auto
        with assms(1) show "positive_similarities (retry_io x r)"
          by (auto simp: positive_input_def)
      qed
      have "failing (snd (ei1, (info, sim, Some e)))" by (simp add: failing_def)
      from retryLoop_effect [OF pos this, of Direct L th f] rl
      have eff2: "call_effect Direct (Matches ei) (ei2, (info2, sim2, err2))"
        by (simp add: same)
      have fc2: "frameCounts ei2 = frameCounts ei"
        using retryLoop_registry [OF rl] fc by (simp add: registry_same_def)
      show ?thesis
      proof (cases "err2 \<noteq> None \<or> sim2 = 0")
        case drop: True
        with assms(2) nb id Some True have "ei' = say ei2 (DroppingFrame f)"
          unfolding processFrame_def
          by (simp add: rl del: One_nat_def split: if_splits)
        moreover from drop eff2 have "Matches ei2 = Matches ei"
          by (auto simp: call_effect_def matched_def)
        ultimately show ?thesis using fc2 by (simp add: step_effect_def)
      next
        case keep: False
        then have n2: "err2 = None" by simp
        from keep assms(2) nb id Some True have "ei' = afterIdentify ei2 Direct f info2 sim2"
          unfolding processFrame_def
          by (simp add: rl del: One_nat_def split: if_splits)
        with after_effect [OF eff2 [unfolded n2] fc2] True show ?thesis by simp
      qed
    qed
  qed
qed

lemma processFrames_iter_effect:
  assumes "positive_input x"
      and "processFrames_iter L x p th ei fr = Some (Inr (ctl, ei', fr'))"
  shows "step_effect p ei ei'"
  using assms
  by (auto simp: processFrames_iter_def dest: processFrame_effect
           split: select_case.splits list.splits if_splits)

lemma step_effect_delta:
  assumes "step_effect p ei ei'"
  shows "lookup0 (frameCounts ei') q - lookup0 (frameCounts ei) q =
         produced_via q (Matches ei') - produced_via q (Matches ei)"
  using assms by (auto simp: step_effect_def lookup0_incr produced_via_snoc)

lemma lookup0_zero_map: "lookup0 (map_of (map (\<lambda>u. (u, 0)) us)) q = 0"
  by (induction us) (simp_all add: lookup0_def)

lemma New_counts_zero: "lookup0 (frameCounts (NewEpisodeIdentifier e aid ps)) q = 0"
  by (simp add: NewEpisodeIdentifier_def Let_def lookup0_zero_map)

lemma run_counts:
  assumes "\<forall>w \<in> set ws. positive_input (w_in w)"
      and "run L th ws s = Some s'"
      and "\<forall>q. lookup0 (frameCounts (fst s)) q = produced_via q (Matches (fst s))"
  shows "\<forall>q. lookup0 (frameCounts (fst s')) q = produced_via q (Matches (fst s'))"
  using assms
proof (induction ws arbitrary: s)
  case Nil
  then show ?case by simp
next
  case (Cons w ws)
  from Cons.prems(2) obtain ctl ei1 fr1 where
    it: "processFrames_iter L (w_in w) (w_url w) th (fst s) (snd s) = Some (Inr (ctl, ei1, fr1))"
    and rest: "run L th ws (ei1, fr1) = Some s'"
    by (auto split: option.splits sum.splits)
  from Cons.prems(1) have pw: "positive_input (w_in w)" and pws: "\<forall>w \<in> set ws. positive_input (w_in w)"
    by simp_all
  have inv1: "\<forall>q. lookup0 (frameCounts (fst (ei1, fr1))) q = produced_via q (Matches (fst (ei1, fr1)))"
  proof
    fix q
    from step_effect_delta [OF processFrames_iter_effect [OF pw it], of q] Cons.prems(3)
    show "lookup0 (frameCounts (fst (ei1, fr1))) q = produced_via q (Matches (fst (ei1, fr1)))"
      by simp
  qed
  from Cons.IH [OF pws rest inv1] show ?case .
qed

text \<open>
  Claim C10, as amended. When every candidate the service returns has a similarity above
  0: one iteration of the worker of path \<open>p\<close> either leaves both the counters and the
  match list unchanged, or increments the counter of \<open>p\<close> by one and appends one Match
  Record produced via \<open>p\<close>; hence after any run of worker iterations from the initial
  state, the counter of every path equals the number of Match Records produced via it.
\<close>

theorem C10_counter_counts_matches:
  "(positive_input x \<and> processFrames_iter L x p th ei fr = Some (Inr (ctl, ei1, fr1)) \<longrightarrow>
      (frameCounts ei1 = frameCounts ei \<and> Matches ei1 = Matches ei) \<or>
      (frameCounts ei1 = incr (frameCounts ei) p \<and>
       (\<exists>r. Matches ei1 = Matches ei @ [r] \<and> mi_ProxyUsed r = p))) \<and>
   ((\<forall>w \<in> set ws. positive_input (w_in w)) \<and>
    run L th ws (NewEpisodeIdentifier endpoint aid proxies, load_frames fs) = Some (ei', frames') \<longrightarrow>
      (\<forall>q. lookup0 (frameCounts ei') q = produced_via q (Matches ei')))"
proof (intro conjI impI)
  assume "positive_input x \<and> processFrames_iter L x p th ei fr = Some (Inr (ctl, ei1, fr1))"
  then have "step_effect p ei ei1" by (auto intro: processFrames_iter_effect)
  then show "(frameCounts ei1 = frameCounts ei \<and> Matches ei1 = Matches ei) \<or>
      (frameCounts ei1 = incr (frameCounts ei) p \<and>
       (\<exists>r. Matches ei1 = Matches ei @ [r] \<and> mi_ProxyUsed r = p))"
    by (simp add: step_effect_def)
next
  assume a: "(\<forall>w \<in> set ws. positive_input (w_in w)) \<and>
    run L th ws (NewEpisodeIdentifier endpoint aid proxies, load_frames fs) = Some (ei', frames')"
  have init: "\<forall>q. lookup0 (frameCounts (fst (NewEpisodeIdentifier endpoint aid proxies, load_frames fs))) q =
                 produced_via q (Matches (fst (NewEpisodeIdentifier endpoint aid proxies, load_frames fs)))"
    by (simp add: New_counts_zero produced_via_def)
  from a run_counts [OF _ _ init, of ws L th "(ei', frames')"]
  show "\<forall>q. lookup0 (frameCounts ei') q = produced_via q (Matches ei')" by simp
qed

text \<open>The definitions to unfold when evaluating the worker on concrete inputs.\<close>

lemmas eval_defs =
  processFrames_iter_def processFrame_def IdentifyEpisode_def Let_def
  withinRangeOrThreshold_def afterIdentify_def NewEpisodeIdentifier_def load_frames_def
  lookupF_def lookup0_def incr_def reply_input_def failing_input_def Direct_def say_def
  handleProxyFailure_def SafeSend_def getClientByProxyURL_def delete_client_def
  makeMatchInfo_def produced_via_def

text \<open>
  The claim as stated fails for an accepted candidate of similarity 0, which the worker
  takes for `no match': the record has been appended, the counter is not incremented.
\<close>

theorem C10_counterexample:
  "map_option (\<lambda>s. (lookup0 (frameCounts (fst s)) ''http://a'',
                     produced_via ''http://a'' (Matches (fst s))))
     (run test_stdlib 5 [\<lparr>w_url = ''http://a'', w_in = reply_input [candidate 7 1 90 110 0]\<rparr>]
        (NewEpisodeIdentifier [] 0 [''http://a''], load_frames [''f''])) = Some (0, 1)"
  by (simp add: eval_defs)

lemma failing_input_sel [simp]:
  "which failing_input = RecvFrame"
  "io_error (first_io failing_input) = Some FailedToSendFrame"
  "io_error (retry_io failing_input r) = Some FailedToSendFrame"
  by (simp_all add: failing_input_def)

subsection \<open>The dispatch while it runs\<close>















subsection \<open>Concrete runs\<close>

text \<open>A retired path whose worker receives \<^verbatim>\<open>f\<close> from the queue \<^verbatim>\<open>f, g\<close>.\<close>

theorem C9_dequeued_frame_lost_witness:
  "which failing_input = RecvFrame \<and>
   lookupF (brokenProxies ((NewEpisodeIdentifier [] 0 [''http://a''])
              \<lparr>brokenProxies := [''http://a'' \<mapsto> True]\<rparr>)) ''http://a'' \<and>
   processFrames_iter test_stdlib failing_input ''http://a'' 5
     ((NewEpisodeIdentifier [] 0 [''http://a''])\<lparr>brokenProxies := [''http://a'' \<mapsto> True]\<rparr>)
     \<lparr>buf = [''f'', ''g''], cap = 2, closed = False\<rparr> =
   Some (Inr (Return,
              (NewEpisodeIdentifier [] 0 [''http://a''])
                \<lparr>brokenProxies := [''http://a'' \<mapsto> True],
                 stdout := [ProxyConfigured ''http://a'', WorkerTerminatesBroken ''http://a'']\<rparr>,
              \<lparr>buf = [''g''], cap = 2, closed = False\<rparr>))"
proof -
  let ?ei = "(NewEpisodeIdentifier [] 0 [''http://a''])\<lparr>brokenProxies := [''http://a'' \<mapsto> True]\<rparr>"
  let ?fr = "\<lparr>buf = [''f'', ''g''], cap = 2, closed = False\<rparr>"
  have h1: "which failing_input = RecvFrame" by simp
  have h2: "buf ?fr = ''f'' # [''g'']" by simp
  have h3: "lookupF (brokenProxies ?ei) ''http://a''" by (simp add: lookupF_def)
  show ?thesis
    using h1 h3 C9_dequeued_frame_lost [OF h1 h2 h3, of test_stdlib 5]
    by (simp add: NewEpisodeIdentifier_def)
qed

text \<open>Two paths: one frame matched via the first, one frame without candidates via the second.\<close>

theorem C10_counter_counts_matches_witness:
  "positive_input (reply_input [candidate 7 1 90 110 0.9]) \<and>
   map_option (\<lambda>s. (lookup0 (frameCounts (fst s)) ''http://a'',
                     produced_via ''http://a'' (Matches (fst s)),
                     lookup0 (frameCounts (fst s)) ''http://b'',
                     produced_via ''http://b'' (Matches (fst s))))
     (run test_stdlib 5
        [\<lparr>w_url = ''http://a'', w_in = reply_input [candidate 7 1 90 110 0.9]\<rparr>,
         \<lparr>w_url = ''http://b'', w_in = reply_input []\<rparr>]
        (NewEpisodeIdentifier [] 0 [''http://a'', ''http://b''], load_frames [''f'', ''g''])) =
   Some (1, 1, 0, 0)"
proof -
  let ?ws = "[\<lparr>w_url = ''http://a'', w_in = reply_input [candidate 7 1 90 110 0.9]\<rparr>,
         \<lparr>w_url = ''http://b'', w_in = reply_input []\<rparr>]"
  let ?s0 = "(NewEpisodeIdentifier [] 0 [''http://a'', ''http://b''], load_frames [''f'', ''g''])"
  have p1: "positive_input (reply_input [candidate 7 1 90 110 0.9])"
    and p2: "positive_input (reply_input [])"
    by (simp_all add: positive_input_def reply_input_def)
  then have pos: "\<forall>w \<in> set ?ws. positive_input (w_in w)" by simp
  obtain s where r: "run test_stdlib 5 ?ws ?s0 = Some s"
    and a: "produced_via ''http://a'' (Matches (fst s)) = 1"
    and b: "produced_via ''http://b'' (Matches (fst s)) = 0"
    by (simp add: eval_defs)
  from r have r': "run test_stdlib 5 ?ws ?s0 = Some (fst s, snd s)" by simp
  from C10_counter_counts_matches [where ws = ?ws and L = test_stdlib and th = 5
        and endpoint = "[]" and aid = 0 and proxies = "[''http://a'', ''http://b'']"
        and fs = "[''f'', ''g'']" and ei' = "fst s" and frames' = "snd s"] pos r'
  have inv: "\<forall>q. lookup0 (frameCounts (fst s)) q = produced_via q (Matches (fst s))"
    by blast
  with a b p1 r show ?thesis by simp
qed



end
